theory Spec2Isabelle
  imports Main "HOL-Library.Char_ord" "HOL-Library.List_Lexorder"
begin

section \<open>The dependency checker of beancount (scripts/checkdeps.py)\<close>

text \<open>
  The script probes the running interpreter: it reads \<^verbatim>\<open>sys.version_info\<close>, imports
  modules, reads their \<^verbatim>\<open>__version__\<close> attribute and prints a report. Everything it
  reads from the interpreter is gathered in a record, the environment, which every
  function takes as its first argument. An exception that leaves a function is the
  \<open>Inl\<close> branch of its result.

  A \<^verbatim>\<open>str\<close> is a \<open>string\<close>, one \<open>char\<close> per code point; \<^verbatim>\<open>assert\<close> statements are
  executed, as they are when the interpreter runs without \<^verbatim>\<open>-O\<close>.
\<close>

subsection \<open>Python values, exceptions and sequences\<close>

datatype exn =
    ImportError
  | ModuleNotFoundError
  | KeyError
  | AttributeError
  | AssertionError
  | OtherException string

text \<open>\<^verbatim>\<open>except ImportError\<close> catches the class and its subclass \<^verbatim>\<open>ModuleNotFoundError\<close>.\<close>

fun is_ImportError :: "exn \<Rightarrow> bool" where
  "is_ImportError ImportError = True"
| "is_ImportError ModuleNotFoundError = True"
| "is_ImportError _ = False"

text \<open>
  The values a module may hold in \<^verbatim>\<open>__version__\<close>, and so the values a version may
  be: \<^verbatim>\<open>None\<close>, a \<^verbatim>\<open>str\<close>, or an object of any other type (an \<^verbatim>\<open>int\<close>, a tuple, ...). Of
  such an object the script reads two things only, which \<open>PyObject\<close> carries: its truth
  value and the text \<^verbatim>\<open>str()\<close> gives for it, so that \<^verbatim>\<open>0\<close> is \<open>PyObject False ''0''\<close> and
  \<^verbatim>\<open>(2, 2)\<close> is \<open>PyObject True ''(2, 2)''\<close>.
\<close>

datatype pyval =
    PyNone
  | PyStr string
  | PyObject bool string

fun isinstance_str :: "pyval \<Rightarrow> bool" where
  "isinstance_str (PyStr _) = True"
| "isinstance_str _ = False"

text \<open>The truth value of a value, and \<^verbatim>\<open>str(v)\<close>, which is also what \<^verbatim>\<open>'{}'.format(v)\<close> writes.\<close>

fun truthy :: "pyval \<Rightarrow> bool" where
  "truthy PyNone = False"
| "truthy (PyStr s) = (s \<noteq> [])"
| "truthy (PyObject t s) = t"

fun py_str :: "pyval \<Rightarrow> string" where
  "py_str PyNone = ''None''"
| "py_str (PyStr s) = s"
| "py_str (PyObject t s) = s"

text \<open>
  Python compares two sequences of the same type (two \<^verbatim>\<open>str\<close>, two tuples) at the first
  position where they differ; when one is a prefix of the other, the longer is the greater.
  \<open>py_ge xs ys\<close> is \<^verbatim>\<open>xs >= ys\<close>.
\<close>

fun py_ge :: "'a::linorder list \<Rightarrow> 'a list \<Rightarrow> bool" where
  "py_ge [] [] = True"
| "py_ge [] (y # ys) = False"
| "py_ge (x # xs) [] = True"
| "py_ge (x # xs) (y # ys) = (if x = y then py_ge xs ys else y < x)"

text \<open>\<^verbatim>\<open>str(n)\<close> for a non-negative integer, and \<^verbatim>\<open>sep.join(xs)\<close>.\<close>

definition digit :: "nat \<Rightarrow> char" where
  "digit d = char_of (48 + d)"

fun str_nat :: "nat \<Rightarrow> string" where
  "str_nat n = (if n < 10 then [digit n] else str_nat (n div 10) @ [digit (n mod 10)])"

declare str_nat.simps [simp del]

fun join :: "string \<Rightarrow> string list \<Rightarrow> string" where
  "join sep [] = []"
| "join sep [x] = x"
| "join sep (x # y # ys) = x @ sep @ join sep (y # ys)"

text \<open>\<^verbatim>\<open>'{:16}'.format(s)\<close> for a \<^verbatim>\<open>str\<close>: left-aligned, filled with spaces up to the
  width, never cut.\<close>

definition format_width :: "nat \<Rightarrow> string \<Rightarrow> string" where
  "format_width w s = s @ replicate (w - length s) (CHR '' '')"

subsection \<open>The environment\<close>

text \<open>
  \<open>version_info\<close> holds the first three fields of \<^verbatim>\<open>sys.version_info\<close>. A module object
  is what \<^verbatim>\<open>check_import\<close> reads of it: its \<^verbatim>\<open>__version__\<close> attribute, \<open>None\<close> when the
  module has none. A decimal module is what \<^verbatim>\<open>check_cdecimal\<close> reads of \<^verbatim>\<open>decimal\<close> and
  \<^verbatim>\<open>cdecimal\<close>: the \<^verbatim>\<open>__version__\<close> attribute, of any value (\<open>None\<close> when the module has no
  such attribute), and whether \<^verbatim>\<open>Decimal().sqrt\<close> is an instance of
  \<^verbatim>\<open>types.BuiltinFunctionType\<close>.
\<close>

record version_info =
  major :: nat
  minor :: nat
  micro :: nat

record module =
  version_attr :: "pyval option"

record decimal_module =
  dec_version :: "pyval option"
  sqrt_is_builtin :: bool

text \<open>
  \<open>import_raises name\<close> is the exception that \<^verbatim>\<open>__import__(name)\<close> raises, \<open>None\<close> when
  it returns; \<open>sys_modules\<close> is \<^verbatim>\<open>sys.modules\<close> once that import has returned.
  \<open>import_decimal\<close> and \<open>import_cdecimal\<close> are the outcomes of the statements
  \<^verbatim>\<open>import decimal\<close> and \<^verbatim>\<open>import cdecimal\<close>.
\<close>

record environment =
  sys_version_info :: version_info
  import_raises :: "string \<Rightarrow> exn option"
  sys_modules :: "string \<Rightarrow> module option"
  import_decimal :: "exn + decimal_module"
  import_cdecimal :: "exn + decimal_module"

text \<open>A result is the triple \<open>(package-name, version-number, sufficient)\<close>; the version
  of a package that is not installed is \<open>PyNone\<close>.\<close>

type_synonym check_result = "string \<times> pyval \<times> bool"

subsection \<open>The checks\<close>

definition check_python :: "environment \<Rightarrow> check_result" where
  "check_python env =
     (let vi = sys_version_info env in
      (''python3'',
       PyStr (join ''.'' (map str_nat [major vi, minor vi, micro vi])),
       py_ge [major vi, minor vi] [3, 3]))"

definition is_fast_decimal :: "decimal_module \<Rightarrow> bool" where
  "is_fast_decimal decimal_module = sqrt_is_builtin decimal_module"

text \<open>
  \<^verbatim>\<open>import decimal\<close> stands outside the \<^verbatim>\<open>try\<close>, so what it raises leaves the function, and
  so does the \<^verbatim>\<open>AttributeError\<close> of \<^verbatim>\<open>decimal.__version__\<close>. Inside the \<^verbatim>\<open>try\<close>, an
  \<^verbatim>\<open>ImportError\<close> falls through to the last \<^verbatim>\<open>return\<close>, and so does a \<^verbatim>\<open>cdecimal\<close> that is
  not fast.
\<close>

definition check_cdecimal :: "environment \<Rightarrow> exn + check_result" where
  "check_cdecimal env =
     (case import_decimal env of
        Inl e \<Rightarrow> Inl e
      | Inr decimal \<Rightarrow>
          if is_fast_decimal decimal then
            (case dec_version decimal of
               None \<Rightarrow> Inl AttributeError
             | Some v \<Rightarrow> Inr (''cdecimal'', PyStr (py_str v @ '' (built-in)''), True))
          else
            (case import_cdecimal env of
               Inl e \<Rightarrow>
                 if is_ImportError e then Inr (''cdecimal'', PyNone, False) else Inl e
             | Inr cdecimal \<Rightarrow>
                 if is_fast_decimal cdecimal then
                   Inr (''cdecimal'',
                        (case dec_version cdecimal of None \<Rightarrow> PyStr ''OKAY'' | Some v \<Rightarrow> v),
                        True)
                 else Inr (''cdecimal'', PyNone, False)))"

text \<open>
  The body of the \<^verbatim>\<open>try\<close> of \<^verbatim>\<open>check_import\<close>: the four statements that may raise, and
  the pair \<open>(version, is_sufficient)\<close> they leave. \<^verbatim>\<open>if min_version\<close> is false for \<^verbatim>\<open>None\<close>
  and for the empty string.
\<close>

definition import_body :: "environment \<Rightarrow> string \<Rightarrow> string option \<Rightarrow> exn + string \<times> bool" where
  "import_body env module_name min_version =
     (case import_raises env module_name of
        Some e \<Rightarrow> Inl e
      | None \<Rightarrow>
          (case sys_modules env module_name of
             None \<Rightarrow> Inl KeyError
           | Some module \<Rightarrow>
               (case version_attr module of
                  None \<Rightarrow> Inl AttributeError
                | Some (PyStr version) \<Rightarrow>
                    Inr (version,
                         (case min_version of
                            None \<Rightarrow> True
                          | Some m \<Rightarrow> if truthy (PyStr m) then py_ge version m else True))
                | Some _ \<Rightarrow> Inl AssertionError)))"

definition check_import ::
  "environment \<Rightarrow> string \<Rightarrow> string option \<Rightarrow> string option \<Rightarrow> exn + check_result" where
  "check_import env package_name min_version module_name =
     (let module_name = (case module_name of None \<Rightarrow> package_name | Some m \<Rightarrow> m) in
      case import_body env module_name min_version of
        Inl e \<Rightarrow> if is_ImportError e then Inr (package_name, PyNone, False) else Inl e
      | Inr (version, is_sufficient) \<Rightarrow> Inr (package_name, PyStr version, is_sufficient))"

text \<open>
  A list display evaluates its elements from left to right; the first one that raises
  ends the evaluation.
\<close>

fun list_display :: "(exn + 'a) list \<Rightarrow> exn + 'a list" where
  "list_display [] = Inr []"
| "list_display (Inl e # _) = Inl e"
| "list_display (Inr x # xs) =
     (case list_display xs of Inl e \<Rightarrow> Inl e | Inr ys \<Rightarrow> Inr (x # ys))"

definition check_dependencies :: "environment \<Rightarrow> exn + check_result list" where
  "check_dependencies env =
     list_display
       [Inr (check_python env),
        check_cdecimal env,
        check_import env ''dateutil'' None None,
        check_import env ''bottle'' None None,
        check_import env ''ply'' (Some ''3.4'') (Some ''ply.yacc''),
        check_import env ''lxml'' (Some ''3'') (Some ''lxml.etree''),
        check_import env ''apiclient'' None None,
        check_import env ''oauth2client'' None None]"

subsection \<open>The report\<close>

text \<open>
  The streams the process writes to. The state of the output is the text each stream has
  received; \<^verbatim>\<open>print(s, file=f)\<close> appends \<open>s\<close> and a newline to \<open>f\<close>, and \<^verbatim>\<open>print(s)\<close>
  writes to \<^verbatim>\<open>sys.stdout\<close>.
\<close>

datatype stream = Stdout | Stderr | FileObj nat

type_synonym outputs = "stream \<Rightarrow> string"

definition print :: "string \<Rightarrow> stream \<Rightarrow> outputs \<Rightarrow> outputs" where
  "print s file out = out (file := out file @ s @ [CHR 0x0A])"

text \<open>\<^verbatim>\<open>version or alt\<close>: the first operand when it is true, the second otherwise.\<close>

definition py_or :: "pyval \<Rightarrow> pyval \<Rightarrow> pyval" where
  "py_or version alt = (if truthy version then version else alt)"

text \<open>The argument of the \<^verbatim>\<open>print\<close> in the loop of \<^verbatim>\<open>list_dependencies\<close>.\<close>

definition format_line :: "check_result \<Rightarrow> string" where
  "format_line r =
     (case r of (package, version, sufficient) \<Rightarrow>
        ''   '' @ format_width 16 package @ '': '' @
        py_str (py_or version (PyStr ''NOT INSTALLED'')) @ '' '' @
        (if truthy version \<and> \<not> sufficient then ''(INSUFFICIENT)'' else []))"

text \<open>
  \<open>file\<close> is \<open>None\<close> when the caller leaves the argument out; its default is
  \<^verbatim>\<open>sys.stderr\<close>. The header is printed by \<^verbatim>\<open>print("Dependencies:")\<close>, with no \<^verbatim>\<open>file\<close>
  argument. \<^verbatim>\<open>check_dependencies()\<close> is evaluated once, before the first turn of the
  loop; when it raises, the exception leaves \<^verbatim>\<open>list_dependencies\<close> after the header.
  The function has no \<^verbatim>\<open>return\<close> statement: its value is \<open>()\<close>.
\<close>

definition list_dependencies ::
  "environment \<Rightarrow> stream option \<Rightarrow> outputs \<Rightarrow> outputs \<times> (exn + unit)" where
  "list_dependencies env file out =
     (let file = (case file of None \<Rightarrow> Stderr | Some f \<Rightarrow> f);
          out = print ''Dependencies:'' Stdout out
      in case check_dependencies env of
           Inl e \<Rightarrow> (out, Inl e)
         | Inr results \<Rightarrow>
             (foldl (\<lambda>out r. print (format_line r) file out) out results, Inr ()))"

subsection \<open>Reading the report, and environments to run the checks in\<close>

text \<open>The text of a list of printed lines.\<close>

fun unlines :: "string list \<Rightarrow> string" where
  "unlines [] = []"
| "unlines (l # ls) = l @ [CHR 0x0A] @ unlines ls"

definition no_output :: outputs where
  "no_output stream = []"

text \<open>
  An installation where every dependency is present: Python 3.3.0 with the C decimal
  module, no \<^verbatim>\<open>cdecimal\<close> package, and the six libraries at sufficient versions. A name
  that is not installed raises \<^verbatim>\<open>ImportError\<close>.
\<close>

definition a_module :: "string \<Rightarrow> module" where
  "a_module version = \<lparr>version_attr = Some (PyStr version)\<rparr>"

definition installed :: "(string \<times> module) list" where
  "installed =
     [(''dateutil'', a_module ''2.2''),
      (''bottle'', a_module ''0.12.7''),
      (''ply.yacc'', a_module ''3.4''),
      (''lxml.etree'', a_module ''3.3.5''),
      (''apiclient'', a_module ''1.2''),
      (''oauth2client'', a_module ''1.2'')]"

definition full_env :: environment where
  "full_env =
     \<lparr>sys_version_info = \<lparr>major = 3, minor = 3, micro = 0\<rparr>,
      import_raises =
        (\<lambda>name. case map_of installed name of None \<Rightarrow> Some ImportError | Some m \<Rightarrow> None),
      sys_modules = map_of installed,
      import_decimal = Inr \<lparr>dec_version = Some (PyStr ''1.70''), sqrt_is_builtin = True\<rparr>,
      import_cdecimal = Inl ImportError\<rparr>"

text \<open>The same installation with one module replaced, or removed.\<close>

definition with_module :: "string \<Rightarrow> module \<Rightarrow> environment \<Rightarrow> environment" where
  "with_module name m env =
     env\<lparr>import_raises := (import_raises env)(name := None),
         sys_modules := (sys_modules env)(name := Some m)\<rparr>"

definition without_module :: "string \<Rightarrow> environment \<Rightarrow> environment" where
  "without_module name env =
     env\<lparr>import_raises := (import_raises env)(name := Some ImportError),
         sys_modules := (sys_modules env)(name := None)\<rparr>"

section \<open>Properties\<close>

subsection \<open>Sequences, list displays and printing\<close>

text \<open>Python's comparison of sequences is the lexicographic order of lists.\<close>

lemma py_ge_iff_le: "py_ge xs ys \<longleftrightarrow> ys \<le> xs"
  by (induction xs ys rule: py_ge.induct) auto

text \<open>A list display returns exactly when none of its elements raises.\<close>

lemma list_display_map_Inr: "list_display (map Inr ys) = Inr ys"
  by (induction ys) simp_all

lemma list_display_InrD: "list_display xs = Inr ys \<Longrightarrow> xs = map Inr ys"
proof (induction xs arbitrary: ys rule: list_display.induct)
  case 1
  then show ?case by simp
next
  case (2 e xs)
  then show ?case by simp
next
  case (3 x xs)
  then show ?case by (auto split: sum.splits)
qed

lemma list_display_Inr: "list_display xs = Inr ys \<longleftrightarrow> xs = map Inr ys"
  using list_display_InrD list_display_map_Inr by blast

text \<open>What a loop of \<^verbatim>\<open>print\<close> calls leaves on its file, and on any other stream.\<close>

lemma print_same: "print s f out f = out f @ s @ [CHR 0x0A]"
  by (simp add: print_def)

lemma print_other: "g \<noteq> f \<Longrightarrow> print s f out g = out g"
  by (simp add: print_def)

lemma foldl_print_same:
  "foldl (\<lambda>out r. print (line r) f out) out rs f = out f @ unlines (map line rs)"
  by (induction rs arbitrary: out) (simp_all add: print_same)

lemma foldl_print_other:
  "g \<noteq> f \<Longrightarrow> foldl (\<lambda>out r. print (line r) f out) out rs g = out g"
  by (induction rs arbitrary: out) (simp_all add: print_other)

lemma list_dependencies_returns:
  assumes "check_dependencies env = Inr rs"
  shows "snd (list_dependencies env file out) = Inr ()"
  using assms by (simp add: list_dependencies_def Let_def)

lemma list_dependencies_file:
  assumes "check_dependencies env = Inr rs"
  shows "fst (list_dependencies env (Some f) out) f =
           out f @ (if f = Stdout then unlines [''Dependencies:''] else []) @
           unlines (map format_line rs)"
  using assms by (simp add: list_dependencies_def Let_def foldl_print_same print_same print_other)

subsection \<open>The checks one by one, and the list of their results\<close>

text \<open>\<^verbatim>\<open>check_import\<close> with its \<^verbatim>\<open>try\<close> written as a case distinction on the body.\<close>

lemma check_import_cases:
  "check_import env p mv mn =
     (case import_body env (case mn of None \<Rightarrow> p | Some m \<Rightarrow> m) mv of
        Inl e \<Rightarrow> if is_ImportError e then Inr (p, PyNone, False) else Inl e
      | Inr (v, s) \<Rightarrow> Inr (p, PyStr v, s))"
  by (simp add: check_import_def Let_def)

lemma check_import_name_aux: "check_import env p mv mn = Inr (n, v, s) \<Longrightarrow> n = p"
  by (auto simp: check_import_cases split: sum.splits if_splits prod.splits)

lemma check_import_absent_aux: "check_import env p mv mn = Inr (n, PyNone, s) \<Longrightarrow> \<not> s"
  by (auto simp: check_import_cases split: sum.splits if_splits prod.splits)

lemma check_import_not_ImportError: "check_import env p mv mn = Inl e \<Longrightarrow> \<not> is_ImportError e"
  by (auto simp: check_import_cases split: sum.splits if_splits prod.splits)

lemma check_cdecimal_name_aux: "check_cdecimal env = Inr (n, v, s) \<Longrightarrow> n = ''cdecimal''"
  by (auto simp: check_cdecimal_def split: sum.splits if_splits option.splits)

lemma check_python_version_aux: "fst (snd (check_python env)) \<noteq> PyNone"
  by (simp add: check_python_def Let_def)

text \<open>The body of the \<^verbatim>\<open>try\<close> on a module that imports and holds a \<^verbatim>\<open>str\<close> as its version.\<close>

lemma import_body_success:
  assumes "import_raises env name = None" and "sys_modules env name = Some m"
    and "version_attr m = Some (PyStr v)"
  shows "import_body env name mv = Inr (v, (case mv of None \<Rightarrow> True | Some mn \<Rightarrow> mn \<le> v))"
  using assms by (cases mv) (auto simp: import_body_def py_ge_iff_le)

lemma import_body_Inr:
  "import_body env name mv = Inr (v, s) \<Longrightarrow>
     s = (case mv of None \<Rightarrow> True | Some m \<Rightarrow> m \<le> v)"
  by (auto simp: import_body_def py_ge_iff_le split: option.splits pyval.splits if_splits)

text \<open>\<^verbatim>\<open>check_dependencies\<close> returns exactly when its seven fallible checks return.\<close>

lemma check_dependencies_Inr_iff:
  "check_dependencies env = Inr rs \<longleftrightarrow>
     (\<exists>r2 r3 r4 r5 r6 r7 r8.
        check_cdecimal env = Inr r2 \<and>
        check_import env ''dateutil'' None None = Inr r3 \<and>
        check_import env ''bottle'' None None = Inr r4 \<and>
        check_import env ''ply'' (Some ''3.4'') (Some ''ply.yacc'') = Inr r5 \<and>
        check_import env ''lxml'' (Some ''3'') (Some ''lxml.etree'') = Inr r6 \<and>
        check_import env ''apiclient'' None None = Inr r7 \<and>
        check_import env ''oauth2client'' None None = Inr r8 \<and>
        rs = [check_python env, r2, r3, r4, r5, r6, r7, r8])"
proof
  assume "check_dependencies env = Inr rs"
  then have "[Inr (check_python env), check_cdecimal env,
              check_import env ''dateutil'' None None,
              check_import env ''bottle'' None None,
              check_import env ''ply'' (Some ''3.4'') (Some ''ply.yacc''),
              check_import env ''lxml'' (Some ''3'') (Some ''lxml.etree''),
              check_import env ''apiclient'' None None,
              check_import env ''oauth2client'' None None] = map Inr rs"
    by (simp only: check_dependencies_def list_display_Inr)
  then obtain r1 r2 r3 r4 r5 r6 r7 r8 where "rs = [r1, r2, r3, r4, r5, r6, r7, r8]"
    by (simp only: Cons_eq_map_conv Nil_is_map_conv) blast
  with \<open>_ = map Inr rs\<close> show "\<exists>r2 r3 r4 r5 r6 r7 r8.
        check_cdecimal env = Inr r2 \<and>
        check_import env ''dateutil'' None None = Inr r3 \<and>
        check_import env ''bottle'' None None = Inr r4 \<and>
        check_import env ''ply'' (Some ''3.4'') (Some ''ply.yacc'') = Inr r5 \<and>
        check_import env ''lxml'' (Some ''3'') (Some ''lxml.etree'') = Inr r6 \<and>
        check_import env ''apiclient'' None None = Inr r7 \<and>
        check_import env ''oauth2client'' None None = Inr r8 \<and>
        rs = [check_python env, r2, r3, r4, r5, r6, r7, r8]"
    by (simp del: split_paired_Ex)
next
  assume "\<exists>r2 r3 r4 r5 r6 r7 r8.
        check_cdecimal env = Inr r2 \<and>
        check_import env ''dateutil'' None None = Inr r3 \<and>
        check_import env ''bottle'' None None = Inr r4 \<and>
        check_import env ''ply'' (Some ''3.4'') (Some ''ply.yacc'') = Inr r5 \<and>
        check_import env ''lxml'' (Some ''3'') (Some ''lxml.etree'') = Inr r6 \<and>
        check_import env ''apiclient'' None None = Inr r7 \<and>
        check_import env ''oauth2client'' None None = Inr r8 \<and>
        rs = [check_python env, r2, r3, r4, r5, r6, r7, r8]"
  then show "check_dependencies env = Inr rs"
    by (auto simp: check_dependencies_def)
qed

text \<open>The exception that leaves \<^verbatim>\<open>check_dependencies\<close> is the one of the first check that
  raises.\<close>

lemma check_dependencies_Inl_iff:
  "check_dependencies env = Inl x \<longleftrightarrow>
     (case check_cdecimal env of Inl e \<Rightarrow> x = e | Inr r2 \<Rightarrow>
      case check_import env ''dateutil'' None None of Inl e \<Rightarrow> x = e | Inr r3 \<Rightarrow>
      case check_import env ''bottle'' None None of Inl e \<Rightarrow> x = e | Inr r4 \<Rightarrow>
      case check_import env ''ply'' (Some ''3.4'') (Some ''ply.yacc'') of
        Inl e \<Rightarrow> x = e | Inr r5 \<Rightarrow>
      case check_import env ''lxml'' (Some ''3'') (Some ''lxml.etree'') of
        Inl e \<Rightarrow> x = e | Inr r6 \<Rightarrow>
      case check_import env ''apiclient'' None None of Inl e \<Rightarrow> x = e | Inr r7 \<Rightarrow>
      case check_import env ''oauth2client'' None None of Inl e \<Rightarrow> x = e | Inr r8 \<Rightarrow> False)"
  unfolding check_dependencies_def
  by (cases "check_cdecimal env";
      cases "check_import env ''dateutil'' None None";
      cases "check_import env ''bottle'' None None";
      cases "check_import env ''ply'' (Some ''3.4'') (Some ''ply.yacc'')";
      cases "check_import env ''lxml'' (Some ''3'') (Some ''lxml.etree'')";
      cases "check_import env ''apiclient'' None None";
      cases "check_import env ''oauth2client'' None None")
     (simp_all, (blast)+)

subsection \<open>Numbers, versions and report lines\<close>

lemma py_ge_pair: "py_ge [a, b] [3, 3::nat] \<longleftrightarrow> 3 < a \<or> (a = 3 \<and> 3 \<le> b)"
  by auto

lemma str_nat_small: "str_nat 0 = ''0''" "str_nat 2 = ''2''" "str_nat 3 = ''3''" "str_nat 4 = ''4''"
  by code_simp+

text \<open>\<open>str_nat\<close> writes the decimal numeral: reading the digits back gives the number.\<close>

lemma digit_value: "d < 10 \<Longrightarrow> of_char (digit d) = 48 + d"
  by (simp add: digit_def)

lemma str_nat_roundtrip: "foldl (\<lambda>a c. 10 * a + (of_char c - 48)) 0 (str_nat n) = n"
proof (induction n rule: str_nat.induct)
  case (1 n)
  show ?case
  proof (cases "n < 10")
    case True
    then show ?thesis by (subst str_nat.simps) (simp add: digit_value)
  next
    case False
    then show ?thesis using 1 by (subst str_nat.simps) (simp add: digit_value)
  qed
qed

text \<open>The fields of a line of the report, with the truth values written out.\<close>

lemma format_line_fields:
  "format_line (package, version, sufficient) =
     ''   '' @ package @ replicate (16 - length package) (CHR '' '') @ '': '' @
     (case version of
        PyNone \<Rightarrow> ''NOT INSTALLED''
      | PyStr v \<Rightarrow> if v = [] then ''NOT INSTALLED'' else v
      | PyObject t v \<Rightarrow> if t then v else ''NOT INSTALLED'') @
     '' '' @
     (if (case version of PyNone \<Rightarrow> False | PyStr v \<Rightarrow> v \<noteq> [] | PyObject t v \<Rightarrow> t)
         \<and> \<not> sufficient
      then ''(INSUFFICIENT)'' else [])"
  by (cases version) (simp_all add: format_line_def format_width_def py_or_def)

section \<open>Claims\<close>

subsection \<open>Exceptions that leave check_import (C1)\<close>

text \<open>
  Claim C1, as the code has it. The \<^verbatim>\<open>try\<close> of \<^verbatim>\<open>check_import\<close> has a single handler,
  \<^verbatim>\<open>except ImportError\<close>. With \<open>name\<close> the module that is imported: an \<^verbatim>\<open>ImportError\<close>
  (or a subclass of it) raised by the import is caught and gives
  \<open>(package_name, None, False)\<close>; every other exception leaves \<^verbatim>\<open>check_import\<close>: any
  other exception the import raises, the \<^verbatim>\<open>KeyError\<close> of \<^verbatim>\<open>sys.modules[module_name]\<close>, the
  \<^verbatim>\<open>AttributeError\<close> of a module with no \<^verbatim>\<open>__version__\<close>, the \<^verbatim>\<open>AssertionError\<close> of a
  \<^verbatim>\<open>__version__\<close> that is not a \<^verbatim>\<open>str\<close>. No \<^verbatim>\<open>ImportError\<close> ever leaves \<^verbatim>\<open>check_import\<close>.
  \<^verbatim>\<open>check_dependencies()\<close> raises whenever one of its seven fallible checks does
  (\<^verbatim>\<open>check_cdecimal\<close> and the six calls of \<^verbatim>\<open>check_import\<close>), and the exception that
  leaves it is the one of the first check that raises.
\<close>

theorem check_import_catches_ImportError_only:
  assumes "name = (case module_name of None \<Rightarrow> package_name | Some m \<Rightarrow> m)"
  shows
    "(import_raises env name = Some e \<and> is_ImportError e \<longrightarrow>
        check_import env package_name min_version module_name = Inr (package_name, PyNone, False))
     \<and> (import_raises env name = Some e \<and> \<not> is_ImportError e \<longrightarrow>
        check_import env package_name min_version module_name = Inl e)
     \<and> (import_raises env name = None \<and> sys_modules env name = None \<longrightarrow>
        check_import env package_name min_version module_name = Inl KeyError)
     \<and> (import_raises env name = None \<and> sys_modules env name = Some module
          \<and> version_attr module = None \<longrightarrow>
        check_import env package_name min_version module_name = Inl AttributeError)
     \<and> (import_raises env name = None \<and> sys_modules env name = Some module
          \<and> version_attr module = Some v \<and> \<not> isinstance_str v \<longrightarrow>
        check_import env package_name min_version module_name = Inl AssertionError)
     \<and> (check_import env package_name min_version module_name = Inl e' \<longrightarrow>
          \<not> is_ImportError e')
     \<and> (check_cdecimal env = Inl x
          \<or> check_import env ''dateutil'' None None = Inl x
          \<or> check_import env ''bottle'' None None = Inl x
          \<or> check_import env ''ply'' (Some ''3.4'') (Some ''ply.yacc'') = Inl x
          \<or> check_import env ''lxml'' (Some ''3'') (Some ''lxml.etree'') = Inl x
          \<or> check_import env ''apiclient'' None None = Inl x
          \<or> check_import env ''oauth2client'' None None = Inl x
          \<longrightarrow> (\<exists>y. check_dependencies env = Inl y))
     \<and> (check_dependencies env = Inl x \<longleftrightarrow>
          (case check_cdecimal env of Inl e \<Rightarrow> x = e | Inr r2 \<Rightarrow>
           case check_import env ''dateutil'' None None of Inl e \<Rightarrow> x = e | Inr r3 \<Rightarrow>
           case check_import env ''bottle'' None None of Inl e \<Rightarrow> x = e | Inr r4 \<Rightarrow>
           case check_import env ''ply'' (Some ''3.4'') (Some ''ply.yacc'') of
             Inl e \<Rightarrow> x = e | Inr r5 \<Rightarrow>
           case check_import env ''lxml'' (Some ''3'') (Some ''lxml.etree'') of
             Inl e \<Rightarrow> x = e | Inr r6 \<Rightarrow>
           case check_import env ''apiclient'' None None of Inl e \<Rightarrow> x = e | Inr r7 \<Rightarrow>
           case check_import env ''oauth2client'' None None of
             Inl e \<Rightarrow> x = e | Inr r8 \<Rightarrow> False))"
proof (intro conjI)
  show "import_raises env name = Some e \<and> is_ImportError e \<longrightarrow>
        check_import env package_name min_version module_name = Inr (package_name, PyNone, False)"
    using assms by (simp add: check_import_cases import_body_def)
  show "import_raises env name = Some e \<and> \<not> is_ImportError e \<longrightarrow>
        check_import env package_name min_version module_name = Inl e"
    using assms by (simp add: check_import_cases import_body_def)
  show "import_raises env name = None \<and> sys_modules env name = None \<longrightarrow>
        check_import env package_name min_version module_name = Inl KeyError"
    using assms by (simp add: check_import_cases import_body_def)
  show "import_raises env name = None \<and> sys_modules env name = Some module
          \<and> version_attr module = None \<longrightarrow>
        check_import env package_name min_version module_name = Inl AttributeError"
    using assms by (simp add: check_import_cases import_body_def)
  show "import_raises env name = None \<and> sys_modules env name = Some module
          \<and> version_attr module = Some v \<and> \<not> isinstance_str v \<longrightarrow>
        check_import env package_name min_version module_name = Inl AssertionError"
    using assms by (cases v) (simp_all add: check_import_cases import_body_def)
  show "check_import env package_name min_version module_name = Inl e' \<longrightarrow>
          \<not> is_ImportError e'"
    using check_import_not_ImportError by blast
  show "check_cdecimal env = Inl x
          \<or> check_import env ''dateutil'' None None = Inl x
          \<or> check_import env ''bottle'' None None = Inl x
          \<or> check_import env ''ply'' (Some ''3.4'') (Some ''ply.yacc'') = Inl x
          \<or> check_import env ''lxml'' (Some ''3'') (Some ''lxml.etree'') = Inl x
          \<or> check_import env ''apiclient'' None None = Inl x
          \<or> check_import env ''oauth2client'' None None = Inl x
          \<longrightarrow> (\<exists>y. check_dependencies env = Inl y)"
  proof
    assume raised: "check_cdecimal env = Inl x
          \<or> check_import env ''dateutil'' None None = Inl x
          \<or> check_import env ''bottle'' None None = Inl x
          \<or> check_import env ''ply'' (Some ''3.4'') (Some ''ply.yacc'') = Inl x
          \<or> check_import env ''lxml'' (Some ''3'') (Some ''lxml.etree'') = Inl x
          \<or> check_import env ''apiclient'' None None = Inl x
          \<or> check_import env ''oauth2client'' None None = Inl x"
    have "\<not> (\<exists>rs. check_dependencies env = Inr rs)"
    proof
      assume "\<exists>rs. check_dependencies env = Inr rs"
      then obtain rs where "check_dependencies env = Inr rs" ..
      with raised show False
        unfolding check_dependencies_Inr_iff by auto
    qed
    then show "\<exists>y. check_dependencies env = Inl y"
      by (cases "check_dependencies env") auto
  qed
  show "check_dependencies env = Inl x \<longleftrightarrow>
          (case check_cdecimal env of Inl e \<Rightarrow> x = e | Inr r2 \<Rightarrow>
           case check_import env ''dateutil'' None None of Inl e \<Rightarrow> x = e | Inr r3 \<Rightarrow>
           case check_import env ''bottle'' None None of Inl e \<Rightarrow> x = e | Inr r4 \<Rightarrow>
           case check_import env ''ply'' (Some ''3.4'') (Some ''ply.yacc'') of
             Inl e \<Rightarrow> x = e | Inr r5 \<Rightarrow>
           case check_import env ''lxml'' (Some ''3'') (Some ''lxml.etree'') of
             Inl e \<Rightarrow> x = e | Inr r6 \<Rightarrow>
           case check_import env ''apiclient'' None None of Inl e \<Rightarrow> x = e | Inr r7 \<Rightarrow>
           case check_import env ''oauth2client'' None None of
             Inl e \<Rightarrow> x = e | Inr r8 \<Rightarrow> False)"
    by (rule check_dependencies_Inl_iff)
qed

text \<open>
  The outcomes on an installation: \<^verbatim>\<open>bottle\<close> not installed; \<^verbatim>\<open>ply.yacc\<close> raising
  another exception on import; \<^verbatim>\<open>dateutil\<close> with no \<^verbatim>\<open>__version__\<close>; \<^verbatim>\<open>dateutil\<close> with the
  tuple \<^verbatim>\<open>(2, 2)\<close> as its \<^verbatim>\<open>__version__\<close>; and \<^verbatim>\<open>check_dependencies\<close> raising what its last
  check, of \<^verbatim>\<open>oauth2client\<close> with no \<^verbatim>\<open>__version__\<close>, raises.
\<close>

theorem check_import_catches_ImportError_only_witness:
  "check_import (without_module ''bottle'' full_env) ''bottle'' None None
     = Inr (''bottle'', PyNone, False)
   \<and> check_import
        (full_env\<lparr>import_raises :=
                    (import_raises full_env)(''ply.yacc'' := Some (OtherException ''SyntaxError''))\<rparr>)
        ''ply'' (Some ''3.4'') (Some ''ply.yacc'')
     = Inl (OtherException ''SyntaxError'')
   \<and> check_import (with_module ''dateutil'' \<lparr>version_attr = None\<rparr> full_env)
        ''dateutil'' None None
     = Inl AttributeError
   \<and> check_import
        (with_module ''dateutil'' \<lparr>version_attr = Some (PyObject True ''(2, 2)'')\<rparr> full_env)
        ''dateutil'' None None
     = Inl AssertionError
   \<and> check_dependencies (with_module ''oauth2client'' \<lparr>version_attr = None\<rparr> full_env)
     = Inl AttributeError"
proof -
  let ?e1 = "without_module ''bottle'' full_env"
  let ?e2 = "full_env\<lparr>import_raises :=
                    (import_raises full_env)(''ply.yacc'' := Some (OtherException ''SyntaxError''))\<rparr>"
  let ?m3 = "\<lparr>version_attr = None\<rparr>"
  let ?e3 = "with_module ''dateutil'' ?m3 full_env"
  let ?m4 = "\<lparr>version_attr = Some (PyObject True ''(2, 2)'')\<rparr>"
  let ?e4 = "with_module ''dateutil'' ?m4 full_env"
  let ?e5 = "with_module ''oauth2client'' ?m3 full_env"
  have n1: "''bottle'' = (case None :: string option of None \<Rightarrow> ''bottle'' | Some m \<Rightarrow> m)"
    by simp
  have n2: "''ply.yacc'' = (case Some ''ply.yacc'' of None \<Rightarrow> ''ply'' | Some m \<Rightarrow> m)"
    by simp
  have n3: "''dateutil'' = (case None :: string option of None \<Rightarrow> ''dateutil'' | Some m \<Rightarrow> m)"
    by simp
  have a: "check_import ?e1 ''bottle'' None None = Inr (''bottle'', PyNone, False)"
    using check_import_catches_ImportError_only [OF n1, of ?e1 ImportError, THEN conjunct1]
    by (simp add: without_module_def)
  have b: "check_import ?e2 ''ply'' (Some ''3.4'') (Some ''ply.yacc'')
             = Inl (OtherException ''SyntaxError'')"
    using check_import_catches_ImportError_only
            [OF n2, of ?e2 "OtherException ''SyntaxError''", THEN conjunct2, THEN conjunct1]
    by simp
  have c: "check_import ?e3 ''dateutil'' None None = Inl AttributeError"
    using check_import_catches_ImportError_only
            [OF n3, of ?e3 _ _ ?m3, THEN conjunct2, THEN conjunct2, THEN conjunct2, THEN conjunct1]
    by (simp add: with_module_def)
  have d: "check_import ?e4 ''dateutil'' None None = Inl AssertionError"
    using check_import_catches_ImportError_only
            [OF n3, of ?e4 _ _ ?m4 "PyObject True ''(2, 2)''",
             THEN conjunct2, THEN conjunct2, THEN conjunct2, THEN conjunct2, THEN conjunct1]
    by (simp add: with_module_def)
  have c2: "check_cdecimal ?e5 = Inr (''cdecimal'', PyStr ''1.70 (built-in)'', True)"
    "check_import ?e5 ''dateutil'' None None = Inr (''dateutil'', PyStr ''2.2'', True)"
    "check_import ?e5 ''bottle'' None None = Inr (''bottle'', PyStr ''0.12.7'', True)"
    "check_import ?e5 ''ply'' (Some ''3.4'') (Some ''ply.yacc'') = Inr (''ply'', PyStr ''3.4'', True)"
    "check_import ?e5 ''lxml'' (Some ''3'') (Some ''lxml.etree'')
       = Inr (''lxml'', PyStr ''3.3.5'', True)"
    "check_import ?e5 ''apiclient'' None None = Inr (''apiclient'', PyStr ''1.2'', True)"
    "check_import ?e5 ''oauth2client'' None None = Inl AttributeError"
    by code_simp+
  have e: "check_dependencies ?e5 = Inl AttributeError"
    using check_import_catches_ImportError_only
            [OF n3, of ?e5 _ _ _ _ _ AttributeError,
             THEN conjunct2, THEN conjunct2, THEN conjunct2, THEN conjunct2, THEN conjunct2,
             THEN conjunct2, THEN conjunct2]
    by (simp add: c2)
  from a b c d e show ?thesis by (intro conjI)
qed

text \<open>
  Claim C1 as the specification states it (no exception ever leaves \<^verbatim>\<open>check_import\<close>,
  and \<^verbatim>\<open>check_dependencies()\<close> never raises) fails where \<^verbatim>\<open>dateutil\<close> imports and has no
  \<^verbatim>\<open>__version__\<close> attribute: the \<^verbatim>\<open>AttributeError\<close> leaves both functions.
\<close>

theorem check_import_raises_counterexample:
  "check_import (with_module ''dateutil'' \<lparr>version_attr = None\<rparr> full_env) ''dateutil'' None None
     = Inl AttributeError
   \<and> check_dependencies (with_module ''dateutil'' \<lparr>version_attr = None\<rparr> full_env)
     = Inl AttributeError"
  by code_simp

subsection \<open>An absent version is insufficient (C2)\<close>

text \<open>
  Claim C2 on the code. The pure-Python \<^verbatim>\<open>decimal\<close> is not fast, and a fast \<^verbatim>\<open>cdecimal\<close> is
  installed whose \<^verbatim>\<open>__version__\<close> attribute is \<^verbatim>\<open>None\<close>:
  \<^verbatim>\<open>getattr(cdecimal, '__version__', 'OKAY')\<close> returns the \<^verbatim>\<open>None\<close> that is there, and
  \<^verbatim>\<open>check_cdecimal\<close> returns it unchecked with the flag \<^verbatim>\<open>True\<close>. The triple is the second
  of the list \<^verbatim>\<open>check_dependencies()\<close> returns, and the report shows the package as
  \<^verbatim>\<open>NOT INSTALLED\<close>.
\<close>

theorem check_cdecimal_none_version_sufficient:
  "check_cdecimal
      (full_env\<lparr>import_decimal :=
                  Inr \<lparr>dec_version = Some (PyStr ''1.70''), sqrt_is_builtin = False\<rparr>,
                import_cdecimal := Inr \<lparr>dec_version = Some PyNone, sqrt_is_builtin = True\<rparr>\<rparr>)
     = Inr (''cdecimal'', PyNone, True)
   \<and> check_dependencies
      (full_env\<lparr>import_decimal :=
                  Inr \<lparr>dec_version = Some (PyStr ''1.70''), sqrt_is_builtin = False\<rparr>,
                import_cdecimal := Inr \<lparr>dec_version = Some PyNone, sqrt_is_builtin = True\<rparr>\<rparr>)
     = Inr [(''python3'', PyStr ''3.3.0'', True), (''cdecimal'', PyNone, True),
            (''dateutil'', PyStr ''2.2'', True), (''bottle'', PyStr ''0.12.7'', True),
            (''ply'', PyStr ''3.4'', True), (''lxml'', PyStr ''3.3.5'', True),
            (''apiclient'', PyStr ''1.2'', True), (''oauth2client'', PyStr ''1.2'', True)]
   \<and> format_line (''cdecimal'', PyNone, True) = ''   cdecimal        : NOT INSTALLED ''"
  by code_simp

text \<open>
  Everywhere else the invariant of claim C2 holds. \<^verbatim>\<open>check_python\<close> never reports
  \<^verbatim>\<open>None\<close>; every call of \<^verbatim>\<open>check_import\<close> reports \<^verbatim>\<open>None\<close> only with \<^verbatim>\<open>False\<close>;
  \<^verbatim>\<open>check_cdecimal\<close> reports \<^verbatim>\<open>None\<close> with \<^verbatim>\<open>True\<close> exactly when \<^verbatim>\<open>decimal\<close> is not fast and
  \<^verbatim>\<open>cdecimal\<close> is fast and holds \<^verbatim>\<open>None\<close> as its \<^verbatim>\<open>__version__\<close>; and a triple of the list
  \<^verbatim>\<open>check_dependencies()\<close> returns that has \<^verbatim>\<open>None\<close> with \<^verbatim>\<open>True\<close> is that one.
\<close>

theorem absent_version_insufficient_but_cdecimal:
  "fst (snd (check_python env)) \<noteq> PyNone
   \<and> (check_import env package_name min_version module_name = Inr (name, PyNone, sufficient)
        \<longrightarrow> \<not> sufficient)
   \<and> (check_cdecimal env = Inr (name', PyNone, True) \<longleftrightarrow>
        name' = ''cdecimal''
        \<and> (\<exists>decimal cdecimal.
              import_decimal env = Inr decimal \<and> \<not> is_fast_decimal decimal
              \<and> import_cdecimal env = Inr cdecimal \<and> is_fast_decimal cdecimal
              \<and> dec_version cdecimal = Some PyNone))
   \<and> (check_dependencies env = Inr results \<and> (name'', PyNone, True) \<in> set results
        \<longrightarrow> check_cdecimal env = Inr (name'', PyNone, True))"
proof (intro conjI impI)
  show "fst (snd (check_python env)) \<noteq> PyNone"
    by (rule check_python_version_aux)
next
  assume "check_import env package_name min_version module_name = Inr (name, PyNone, sufficient)"
  then show "\<not> sufficient" by (rule check_import_absent_aux)
next
  show "check_cdecimal env = Inr (name', PyNone, True) \<longleftrightarrow>
        name' = ''cdecimal''
        \<and> (\<exists>decimal cdecimal.
              import_decimal env = Inr decimal \<and> \<not> is_fast_decimal decimal
              \<and> import_cdecimal env = Inr cdecimal \<and> is_fast_decimal cdecimal
              \<and> dec_version cdecimal = Some PyNone)"
    by (cases "import_decimal env"; cases "import_cdecimal env")
       (auto simp: check_cdecimal_def split: option.splits if_splits)
next
  assume a: "check_dependencies env = Inr results \<and> (name'', PyNone, True) \<in> set results"
  then obtain r2 r3 r4 r5 r6 r7 r8 where
    checks: "check_cdecimal env = Inr r2"
      "check_import env ''dateutil'' None None = Inr r3"
      "check_import env ''bottle'' None None = Inr r4"
      "check_import env ''ply'' (Some ''3.4'') (Some ''ply.yacc'') = Inr r5"
      "check_import env ''lxml'' (Some ''3'') (Some ''lxml.etree'') = Inr r6"
      "check_import env ''apiclient'' None None = Inr r7"
      "check_import env ''oauth2client'' None None = Inr r8"
    and rs: "results = [check_python env, r2, r3, r4, r5, r6, r7, r8]"
    unfolding check_dependencies_Inr_iff by blast
  from a rs have "(name'', PyNone, True) \<in> {check_python env, r2, r3, r4, r5, r6, r7, r8}"
    by simp
  then consider "check_python env = (name'', PyNone, True)"
    | "r2 = (name'', PyNone, True)" | "r3 = (name'', PyNone, True)"
    | "r4 = (name'', PyNone, True)" | "r5 = (name'', PyNone, True)"
    | "r6 = (name'', PyNone, True)" | "r7 = (name'', PyNone, True)"
    | "r8 = (name'', PyNone, True)"
    by auto
  then show "check_cdecimal env = Inr (name'', PyNone, True)"
  proof cases
    case 1
    then show ?thesis using check_python_version_aux [of env] by simp
  next
    case 2
    then show ?thesis using checks(1) by simp
  next
    case 3
    then show ?thesis using checks(2) check_import_absent_aux by blast
  next
    case 4
    then show ?thesis using checks(3) check_import_absent_aux by blast
  next
    case 5
    then show ?thesis using checks(4) check_import_absent_aux by blast
  next
    case 6
    then show ?thesis using checks(5) check_import_absent_aux by blast
  next
    case 7
    then show ?thesis using checks(6) check_import_absent_aux by blast
  next
    case 8
    then show ?thesis using checks(7) check_import_absent_aux by blast
  qed
qed

text \<open>
  The installation of the specification's end-to-end example (\<^verbatim>\<open>dateutil\<close> cannot be
  imported): its absent version comes with \<^verbatim>\<open>False\<close>.
\<close>

theorem absent_version_insufficient_but_cdecimal_witness:
  "check_import (without_module ''dateutil'' full_env) ''dateutil'' None None
     = Inr (''dateutil'', PyNone, False)
   \<and> \<not> False"
proof -
  have i: "check_import (without_module ''dateutil'' full_env) ''dateutil'' None None
             = Inr (''dateutil'', PyNone, False)"
    by code_simp
  have "\<not> False"
    using absent_version_insufficient_but_cdecimal
            [THEN conjunct2, THEN conjunct1, rule_format, OF i]
    by simp
  with i show ?thesis by (intro conjI)
qed

subsection \<open>Sufficiency is a comparison of strings (C3)\<close>

text \<open>
  Claim C3. With \<open>name\<close> the module that is imported: when the import succeeds, that is
  when \<^verbatim>\<open>__import__\<close> returns and the module found in \<^verbatim>\<open>sys.modules\<close> holds a \<^verbatim>\<open>str\<close> as its
  \<^verbatim>\<open>__version__\<close>, \<^verbatim>\<open>check_import\<close> returns the package name, that version, and a flag that
  is \<^verbatim>\<open>version >= min_version\<close> where a minimum is given and true where none is.
  Conversely, every triple it returns with a version that is a \<^verbatim>\<open>str\<close> has this flag. The
  order \<open>\<le>\<close> on strings is the lexicographic order of \<open>List_Lexorder\<close> over the order of
  characters by code point (\<open>Char_ord\<close>); it is true of the empty minimum, so the case
  where \<^verbatim>\<open>if min_version\<close> is false for \<^verbatim>\<open>''\<close> agrees.
\<close>

theorem check_import_sufficiency:
  assumes "name = (case module_name of None \<Rightarrow> package_name | Some m \<Rightarrow> m)"
  shows
    "(import_raises env name = None \<and> sys_modules env name = Some module
        \<and> version_attr module = Some (PyStr version) \<longrightarrow>
      check_import env package_name min_version module_name =
        Inr (package_name, PyStr version,
             (case min_version of None \<Rightarrow> True | Some m \<Rightarrow> m \<le> version)))
     \<and> (check_import env package_name min_version module_name = Inr (name', PyStr version', flag)
          \<longrightarrow> flag = (case min_version of None \<Rightarrow> True | Some m \<Rightarrow> m \<le> version'))"
proof (intro conjI impI)
  assume "import_raises env name = None \<and> sys_modules env name = Some module
        \<and> version_attr module = Some (PyStr version)"
  then have "import_body env name min_version =
      Inr (version, (case min_version of None \<Rightarrow> True | Some m \<Rightarrow> m \<le> version))"
    by (simp add: import_body_success)
  with assms show "check_import env package_name min_version module_name =
        Inr (package_name, PyStr version,
             (case min_version of None \<Rightarrow> True | Some m \<Rightarrow> m \<le> version))"
    by (simp add: check_import_cases)
next
  assume "check_import env package_name min_version module_name = Inr (name', PyStr version', flag)"
  then show "flag = (case min_version of None \<Rightarrow> True | Some m \<Rightarrow> m \<le> version')"
    by (auto simp: check_import_cases dest: import_body_Inr
             split: sum.splits if_splits prod.splits)
qed

text \<open>
  A minimum given and met, exactly (3.4 against 3.4) and by a longer string (3.3.5
  against 3); a minimum given and not met, where the comparison is not numeric (3.10
  against 3.4); and no minimum.
\<close>

theorem check_import_sufficiency_witness:
  "check_import full_env ''ply'' (Some ''3.4'') (Some ''ply.yacc'')
     = Inr (''ply'', PyStr ''3.4'', True)
   \<and> check_import full_env ''lxml'' (Some ''3'') (Some ''lxml.etree'')
     = Inr (''lxml'', PyStr ''3.3.5'', True)
   \<and> check_import (with_module ''ply.yacc'' (a_module ''3.10'') full_env)
        ''ply'' (Some ''3.4'') (Some ''ply.yacc'')
     = Inr (''ply'', PyStr ''3.10'', False)
   \<and> check_import full_env ''bottle'' None None = Inr (''bottle'', PyStr ''0.12.7'', True)"
proof -
  let ?e = "with_module ''ply.yacc'' (a_module ''3.10'') full_env"
  have n1: "''ply.yacc'' = (case Some ''ply.yacc'' of None \<Rightarrow> ''ply'' | Some m \<Rightarrow> m)"
    by simp
  have n2: "''lxml.etree'' = (case Some ''lxml.etree'' of None \<Rightarrow> ''lxml'' | Some m \<Rightarrow> m)"
    by simp
  have n3: "''bottle'' = (case None :: string option of None \<Rightarrow> ''bottle'' | Some m \<Rightarrow> m)"
    by simp
  have h1: "import_raises full_env ''ply.yacc'' = None
            \<and> sys_modules full_env ''ply.yacc'' = Some (a_module ''3.4'')
            \<and> version_attr (a_module ''3.4'') = Some (PyStr ''3.4'')"
    by code_simp
  have h2: "import_raises full_env ''lxml.etree'' = None
            \<and> sys_modules full_env ''lxml.etree'' = Some (a_module ''3.3.5'')
            \<and> version_attr (a_module ''3.3.5'') = Some (PyStr ''3.3.5'')"
    by code_simp
  have h3: "import_raises ?e ''ply.yacc'' = None
            \<and> sys_modules ?e ''ply.yacc'' = Some (a_module ''3.10'')
            \<and> version_attr (a_module ''3.10'') = Some (PyStr ''3.10'')"
    by code_simp
  have h4: "import_raises full_env ''bottle'' = None
            \<and> sys_modules full_env ''bottle'' = Some (a_module ''0.12.7'')
            \<and> version_attr (a_module ''0.12.7'') = Some (PyStr ''0.12.7'')"
    by code_simp
  have c: "''3.4'' \<le> ''3.4''" "''3'' \<le> ''3.3.5''" "\<not> ''3.4'' \<le> ''3.10''"
    by (simp_all add: less_char_def)
  have a1: "check_import full_env ''ply'' (Some ''3.4'') (Some ''ply.yacc'')
              = Inr (''ply'', PyStr ''3.4'', True)"
    using check_import_sufficiency [OF n1, THEN conjunct1, rule_format, OF h1, of "Some ''3.4''"] c
    by simp
  have a2: "check_import full_env ''lxml'' (Some ''3'') (Some ''lxml.etree'')
              = Inr (''lxml'', PyStr ''3.3.5'', True)"
    using check_import_sufficiency [OF n2, THEN conjunct1, rule_format, OF h2, of "Some ''3''"] c
    by simp
  have a3: "check_import ?e ''ply'' (Some ''3.4'') (Some ''ply.yacc'')
              = Inr (''ply'', PyStr ''3.10'', False)"
    using check_import_sufficiency [OF n1, THEN conjunct1, rule_format, OF h3, of "Some ''3.4''"] c
    by simp
  have a4: "check_import full_env ''bottle'' None None = Inr (''bottle'', PyStr ''0.12.7'', True)"
    using check_import_sufficiency [OF n3, THEN conjunct1, rule_format, OF h4, of None]
    by simp
  from a1 a2 a3 a4 show ?thesis by (intro conjI)
qed

subsection \<open>The header of the report (C4)\<close>

text \<open>
  Claim C4 on the code. \<^verbatim>\<open>list_dependencies\<close> is called with a file object of its own on
  the full installation: the lines of the dependencies are written to that file, the
  header \<^verbatim>\<open>Dependencies:\<close> is written to \<^verbatim>\<open>sys.stdout\<close>, as it is when the argument is left
  out. The function returns \<open>()\<close>, the model of \<^verbatim>\<open>None\<close>.
\<close>

theorem list_dependencies_header_on_stdout:
  "fst (list_dependencies full_env (Some (FileObj 0)) no_output) Stdout
     = unlines [''Dependencies:'']
   \<and> fst (list_dependencies full_env (Some (FileObj 0)) no_output) (FileObj 0)
     = unlines [''   python3         : 3.3.0 '',
                ''   cdecimal        : 1.70 (built-in) '',
                ''   dateutil        : 2.2 '',
                ''   bottle          : 0.12.7 '',
                ''   ply             : 3.4 '',
                ''   lxml            : 3.3.5 '',
                ''   apiclient       : 1.2 '',
                ''   oauth2client    : 1.2 '']
   \<and> fst (list_dependencies full_env None no_output) Stdout = unlines [''Dependencies:'']
   \<and> snd (list_dependencies full_env (Some (FileObj 0)) no_output) = Inr ()"
  by code_simp

subsection \<open>The interpreter's own version (C5)\<close>

text \<open>
  Claim C5. \<^verbatim>\<open>check_python()\<close> reports the name \<^verbatim>\<open>python3\<close>, the decimal numerals of
  major, minor and micro joined by dots, and a flag that is true exactly when
  \<open>(major, minor)\<close> is at least \<open>(3, 3)\<close>: 3.2.x is insufficient, 3.3.0 and 4.0.0 are
  sufficient.
\<close>

theorem check_python_result:
  "check_python env =
     (''python3'',
      PyStr (str_nat (major (sys_version_info env)) @ ''.'' @
            str_nat (minor (sys_version_info env)) @ ''.'' @
            str_nat (micro (sys_version_info env))),
      3 < major (sys_version_info env)
      \<or> (major (sys_version_info env) = 3 \<and> 3 \<le> minor (sys_version_info env)))
   \<and> check_python (env\<lparr>sys_version_info := \<lparr>major = 3, minor = 2, micro = x\<rparr>\<rparr>)
       = (''python3'', PyStr (''3.2.'' @ str_nat x), False)
   \<and> check_python (env\<lparr>sys_version_info := \<lparr>major = 3, minor = 3, micro = 0\<rparr>\<rparr>)
       = (''python3'', PyStr ''3.3.0'', True)
   \<and> check_python (env\<lparr>sys_version_info := \<lparr>major = 4, minor = 0, micro = 0\<rparr>\<rparr>)
       = (''python3'', PyStr ''4.0.0'', True)"
proof (intro conjI)
  show "check_python env =
     (''python3'',
      PyStr (str_nat (major (sys_version_info env)) @ ''.'' @
            str_nat (minor (sys_version_info env)) @ ''.'' @
            str_nat (micro (sys_version_info env))),
      3 < major (sys_version_info env)
      \<or> (major (sys_version_info env) = 3 \<and> 3 \<le> minor (sys_version_info env)))"
    unfolding check_python_def Let_def py_ge_pair by simp
  show "check_python (env\<lparr>sys_version_info := \<lparr>major = 3, minor = 2, micro = x\<rparr>\<rparr>)
       = (''python3'', PyStr (''3.2.'' @ str_nat x), False)"
    by (simp add: check_python_def Let_def str_nat_small)
  show "check_python (env\<lparr>sys_version_info := \<lparr>major = 3, minor = 3, micro = 0\<rparr>\<rparr>)
       = (''python3'', PyStr ''3.3.0'', True)"
    by (simp add: check_python_def Let_def str_nat_small)
  show "check_python (env\<lparr>sys_version_info := \<lparr>major = 4, minor = 0, micro = 0\<rparr>\<rparr>)
       = (''python3'', PyStr ''4.0.0'', True)"
    by (simp add: check_python_def Let_def str_nat_small)
qed

text \<open>
  Three interpreters: 3.3.0, 3.2.5 and 3.10.12.
\<close>

theorem check_python_result_witness:
  "check_python full_env = (''python3'', PyStr ''3.3.0'', True)
   \<and> check_python (full_env\<lparr>sys_version_info := \<lparr>major = 3, minor = 2, micro = 5\<rparr>\<rparr>)
       = (''python3'', PyStr ''3.2.5'', False)
   \<and> check_python (full_env\<lparr>sys_version_info := \<lparr>major = 3, minor = 10, micro = 12\<rparr>\<rparr>)
       = (''python3'', PyStr ''3.10.12'', True)"
proof -
  have s: "str_nat 0 = ''0''" "str_nat 3 = ''3''" "str_nat 5 = ''5''" "str_nat 2 = ''2''"
    "str_nat 10 = ''10''" "str_nat 12 = ''12''"
    by code_simp+
  have a: "check_python full_env = (''python3'', PyStr ''3.3.0'', True)"
    using check_python_result [of full_env, THEN conjunct1] by (simp add: full_env_def s)
  have b: "check_python (full_env\<lparr>sys_version_info := \<lparr>major = 3, minor = 2, micro = 5\<rparr>\<rparr>)
       = (''python3'', PyStr ''3.2.5'', False)"
    using check_python_result [of full_env 5, THEN conjunct2, THEN conjunct1] by (simp add: s)
  have c: "check_python (full_env\<lparr>sys_version_info := \<lparr>major = 3, minor = 10, micro = 12\<rparr>\<rparr>)
       = (''python3'', PyStr ''3.10.12'', True)"
    using check_python_result
            [of "full_env\<lparr>sys_version_info := \<lparr>major = 3, minor = 10, micro = 12\<rparr>\<rparr>",
             THEN conjunct1]
    by (simp add: s)
  from a b c show ?thesis by (intro conjI)
qed

subsection \<open>The three stages of check_cdecimal (C6)\<close>

text \<open>
  Claim C6. With \<^verbatim>\<open>decimal\<close> imported: when it is fast, the result is its version followed
  by \<^verbatim>\<open>(built-in)\<close>, sufficient; otherwise, when \<^verbatim>\<open>cdecimal\<close> imports and is fast, the result
  is the version of \<^verbatim>\<open>cdecimal\<close>, or \<^verbatim>\<open>OKAY\<close> when it has none, sufficient; otherwise, when
  \<^verbatim>\<open>cdecimal\<close> is not fast or its import raises \<^verbatim>\<open>ImportError\<close>, the result is
  \<open>(None, False)\<close>. Conversely every result \<^verbatim>\<open>check_cdecimal\<close> returns is the one of the
  first stage that applies. The version of \<^verbatim>\<open>decimal\<close> is written by \<^verbatim>\<open>format\<close>, as its
  \<^verbatim>\<open>str()\<close>; the version of \<^verbatim>\<open>cdecimal\<close> is returned as it is.
\<close>

theorem check_cdecimal_policy:
  assumes "import_decimal env = Inr decimal"
  shows
    "(is_fast_decimal decimal \<and> dec_version decimal = Some v \<longrightarrow>
        check_cdecimal env = Inr (''cdecimal'', PyStr (py_str v @ '' (built-in)''), True))
     \<and> (\<not> is_fast_decimal decimal \<and> import_cdecimal env = Inr cdecimal
          \<and> is_fast_decimal cdecimal \<longrightarrow>
        check_cdecimal env =
          Inr (''cdecimal'',
               (case dec_version cdecimal of None \<Rightarrow> PyStr ''OKAY'' | Some v' \<Rightarrow> v'), True))
     \<and> (\<not> is_fast_decimal decimal
          \<and> (import_cdecimal env = Inr cdecimal \<and> \<not> is_fast_decimal cdecimal
               \<or> import_cdecimal env = Inl e \<and> is_ImportError e) \<longrightarrow>
        check_cdecimal env = Inr (''cdecimal'', PyNone, False))
     \<and> (check_cdecimal env = Inr r \<longrightarrow>
          (is_fast_decimal decimal
             \<and> (\<exists>v'. dec_version decimal = Some v'
                       \<and> r = (''cdecimal'', PyStr (py_str v' @ '' (built-in)''), True)))
          \<or> (\<not> is_fast_decimal decimal
               \<and> (\<exists>c. import_cdecimal env = Inr c \<and> is_fast_decimal c
                        \<and> r = (''cdecimal'',
                                (case dec_version c of None \<Rightarrow> PyStr ''OKAY'' | Some v' \<Rightarrow> v'),
                                True)))
          \<or> (\<not> is_fast_decimal decimal
               \<and> (\<forall>c. import_cdecimal env = Inr c \<longrightarrow> \<not> is_fast_decimal c)
               \<and> r = (''cdecimal'', PyNone, False)))"
proof (intro conjI)
  show "is_fast_decimal decimal \<and> dec_version decimal = Some v \<longrightarrow>
        check_cdecimal env = Inr (''cdecimal'', PyStr (py_str v @ '' (built-in)''), True)"
    using assms by (simp add: check_cdecimal_def)
  show "\<not> is_fast_decimal decimal \<and> import_cdecimal env = Inr cdecimal
          \<and> is_fast_decimal cdecimal \<longrightarrow>
        check_cdecimal env =
          Inr (''cdecimal'',
               (case dec_version cdecimal of None \<Rightarrow> PyStr ''OKAY'' | Some v' \<Rightarrow> v'), True)"
    using assms by (simp add: check_cdecimal_def)
  show "\<not> is_fast_decimal decimal
          \<and> (import_cdecimal env = Inr cdecimal \<and> \<not> is_fast_decimal cdecimal
               \<or> import_cdecimal env = Inl e \<and> is_ImportError e) \<longrightarrow>
        check_cdecimal env = Inr (''cdecimal'', PyNone, False)"
    using assms by (auto simp: check_cdecimal_def)
  show "check_cdecimal env = Inr r \<longrightarrow>
          (is_fast_decimal decimal
             \<and> (\<exists>v'. dec_version decimal = Some v'
                       \<and> r = (''cdecimal'', PyStr (py_str v' @ '' (built-in)''), True)))
          \<or> (\<not> is_fast_decimal decimal
               \<and> (\<exists>c. import_cdecimal env = Inr c \<and> is_fast_decimal c
                        \<and> r = (''cdecimal'',
                                (case dec_version c of None \<Rightarrow> PyStr ''OKAY'' | Some v' \<Rightarrow> v'),
                                True)))
          \<or> (\<not> is_fast_decimal decimal
               \<and> (\<forall>c. import_cdecimal env = Inr c \<longrightarrow> \<not> is_fast_decimal c)
               \<and> r = (''cdecimal'', PyNone, False))"
    using assms
    by (cases "import_cdecimal env"; cases "dec_version decimal")
       (auto simp: check_cdecimal_def split: if_splits)
qed

text \<open>
  The three stages: the built-in decimal is fast; it is not, and \<^verbatim>\<open>cdecimal\<close> is fast,
  without and with a version; neither is.
\<close>

theorem check_cdecimal_policy_witness:
  "check_cdecimal full_env = Inr (''cdecimal'', PyStr ''1.70 (built-in)'', True)
   \<and> check_cdecimal
        (full_env\<lparr>import_decimal :=
                    Inr \<lparr>dec_version = Some (PyStr ''1.70''), sqrt_is_builtin = False\<rparr>,
                  import_cdecimal := Inr \<lparr>dec_version = None, sqrt_is_builtin = True\<rparr>\<rparr>)
       = Inr (''cdecimal'', PyStr ''OKAY'', True)
   \<and> check_cdecimal
        (full_env\<lparr>import_decimal :=
                    Inr \<lparr>dec_version = Some (PyStr ''1.70''), sqrt_is_builtin = False\<rparr>,
                  import_cdecimal :=
                    Inr \<lparr>dec_version = Some (PyStr ''2.3''), sqrt_is_builtin = True\<rparr>\<rparr>)
       = Inr (''cdecimal'', PyStr ''2.3'', True)
   \<and> check_cdecimal
        (full_env\<lparr>import_decimal :=
                    Inr \<lparr>dec_version = Some (PyStr ''1.70''), sqrt_is_builtin = False\<rparr>\<rparr>)
       = Inr (''cdecimal'', PyNone, False)"
proof -
  let ?slow = "\<lparr>dec_version = Some (PyStr ''1.70''), sqrt_is_builtin = False\<rparr>"
  let ?fast = "\<lparr>dec_version = Some (PyStr ''1.70''), sqrt_is_builtin = True\<rparr>"
  let ?c0 = "\<lparr>dec_version = None, sqrt_is_builtin = True\<rparr>"
  let ?c1 = "\<lparr>dec_version = Some (PyStr ''2.3''), sqrt_is_builtin = True\<rparr>"
  have 1: "import_decimal full_env = Inr ?fast"
    by (simp add: full_env_def)
  have 2: "import_decimal (full_env\<lparr>import_decimal := Inr ?slow, import_cdecimal := Inr ?c0\<rparr>)
             = Inr ?slow"
    by simp
  have 3: "import_decimal (full_env\<lparr>import_decimal := Inr ?slow, import_cdecimal := Inr ?c1\<rparr>)
             = Inr ?slow"
    by simp
  have 4: "import_decimal (full_env\<lparr>import_decimal := Inr ?slow\<rparr>) = Inr ?slow"
    by simp
  have 5: "import_cdecimal (full_env\<lparr>import_decimal := Inr ?slow\<rparr>) = Inl ImportError"
    by (simp add: full_env_def)
  have a: "check_cdecimal full_env = Inr (''cdecimal'', PyStr ''1.70 (built-in)'', True)"
    using check_cdecimal_policy [OF 1, of "PyStr ''1.70''", THEN conjunct1]
    by (simp add: is_fast_decimal_def)
  have b: "check_cdecimal (full_env\<lparr>import_decimal := Inr ?slow, import_cdecimal := Inr ?c0\<rparr>)
             = Inr (''cdecimal'', PyStr ''OKAY'', True)"
    using check_cdecimal_policy [OF 2, of _ ?c0, THEN conjunct2, THEN conjunct1]
    by (simp add: is_fast_decimal_def)
  have c: "check_cdecimal (full_env\<lparr>import_decimal := Inr ?slow, import_cdecimal := Inr ?c1\<rparr>)
             = Inr (''cdecimal'', PyStr ''2.3'', True)"
    using check_cdecimal_policy [OF 3, of _ ?c1, THEN conjunct2, THEN conjunct1]
    by (simp add: is_fast_decimal_def)
  have d: "check_cdecimal (full_env\<lparr>import_decimal := Inr ?slow\<rparr>)
             = Inr (''cdecimal'', PyNone, False)"
    using check_cdecimal_policy [OF 4, of _ _ ImportError,
                                 THEN conjunct2, THEN conjunct2, THEN conjunct1] 5
    by (simp add: is_fast_decimal_def)
  from a b c d show ?thesis by (intro conjI)
qed

subsection \<open>One line for each result (C7)\<close>

text \<open>
  Claim C7, as the code has it. When \<^verbatim>\<open>check_dependencies()\<close> returns, \<^verbatim>\<open>list_dependencies\<close>
  returns \<open>()\<close> and appends to the file, after the header when the file is
  \<^verbatim>\<open>sys.stdout\<close>, one line for each result, in order: three spaces, the package name
  filled with spaces up to 16 characters, a colon and a space, then the version, or
  \<^verbatim>\<open>NOT INSTALLED\<close> when the version is \<^verbatim>\<open>None\<close> or the empty string, then a space, then
  \<^verbatim>\<open>(INSUFFICIENT)\<close> exactly when the version is a non-empty string and the flag is false.
  A version that is neither \<^verbatim>\<open>None\<close> nor a \<^verbatim>\<open>str\<close>, which only \<^verbatim>\<open>check_cdecimal\<close> can return,
  is treated by its truth value in the same way: a false one as \<^verbatim>\<open>NOT INSTALLED\<close>, a true
  one written as its \<^verbatim>\<open>str()\<close>, with the suffix when the flag is false.
  When the file argument is left out the file is \<^verbatim>\<open>sys.stderr\<close>.
\<close>

theorem list_dependencies_lines:
  assumes "check_dependencies env = Inr results"
  shows
    "snd (list_dependencies env (Some f) out) = Inr ()
     \<and> fst (list_dependencies env None out) = fst (list_dependencies env (Some Stderr) out)
     \<and> fst (list_dependencies env (Some f) out) f =
         out f @ (if f = Stdout then unlines [''Dependencies:''] else []) @
         unlines
           (map (\<lambda>(package, version, sufficient).
                   ''   '' @ package @ replicate (16 - length package) (CHR '' '') @ '': '' @
                   (case version of
                      PyNone \<Rightarrow> ''NOT INSTALLED''
                    | PyStr v \<Rightarrow> if v = [] then ''NOT INSTALLED'' else v
                    | PyObject t v \<Rightarrow> if t then v else ''NOT INSTALLED'') @
                   '' '' @
                   (if (case version of
                          PyNone \<Rightarrow> False
                        | PyStr v \<Rightarrow> v \<noteq> []
                        | PyObject t v \<Rightarrow> t)
                       \<and> \<not> sufficient
                    then ''(INSUFFICIENT)'' else []))
              results)"
proof (intro conjI)
  show "snd (list_dependencies env (Some f) out) = Inr ()"
    using assms by (rule list_dependencies_returns)
  show "fst (list_dependencies env None out) = fst (list_dependencies env (Some Stderr) out)"
    by (simp add: list_dependencies_def)
  have "map format_line results =
          map (\<lambda>(package, version, sufficient).
                   ''   '' @ package @ replicate (16 - length package) (CHR '' '') @ '': '' @
                   (case version of
                      PyNone \<Rightarrow> ''NOT INSTALLED''
                    | PyStr v \<Rightarrow> if v = [] then ''NOT INSTALLED'' else v
                    | PyObject t v \<Rightarrow> if t then v else ''NOT INSTALLED'') @
                   '' '' @
                   (if (case version of
                          PyNone \<Rightarrow> False
                        | PyStr v \<Rightarrow> v \<noteq> []
                        | PyObject t v \<Rightarrow> t)
                       \<and> \<not> sufficient
                    then ''(INSUFFICIENT)'' else []))
              results"
    by (rule map_cong) (auto simp only: format_line_fields)
  with list_dependencies_file [OF assms] show "fst (list_dependencies env (Some f) out) f =
         out f @ (if f = Stdout then unlines [''Dependencies:''] else []) @
         unlines
           (map (\<lambda>(package, version, sufficient).
                   ''   '' @ package @ replicate (16 - length package) (CHR '' '') @ '': '' @
                   (case version of
                      PyNone \<Rightarrow> ''NOT INSTALLED''
                    | PyStr v \<Rightarrow> if v = [] then ''NOT INSTALLED'' else v
                    | PyObject t v \<Rightarrow> if t then v else ''NOT INSTALLED'') @
                   '' '' @
                   (if (case version of
                          PyNone \<Rightarrow> False
                        | PyStr v \<Rightarrow> v \<noteq> []
                        | PyObject t v \<Rightarrow> t)
                       \<and> \<not> sufficient
                    then ''(INSUFFICIENT)'' else []))
              results)"
    by (simp only:)
qed

text \<open>
  The report of the specification's end-to-end example: \<^verbatim>\<open>dateutil\<close> cannot be imported
  and \<^verbatim>\<open>lxml.etree\<close> is at 2.0.
\<close>

theorem list_dependencies_lines_witness:
  "check_dependencies
      (without_module ''dateutil'' (with_module ''lxml.etree'' (a_module ''2.0'') full_env))
     = Inr [(''python3'', PyStr ''3.3.0'', True), (''cdecimal'', PyStr ''1.70 (built-in)'', True),
            (''dateutil'', PyNone, False), (''bottle'', PyStr ''0.12.7'', True),
            (''ply'', PyStr ''3.4'', True), (''lxml'', PyStr ''2.0'', False),
            (''apiclient'', PyStr ''1.2'', True), (''oauth2client'', PyStr ''1.2'', True)]
   \<and> fst (list_dependencies
             (without_module ''dateutil'' (with_module ''lxml.etree'' (a_module ''2.0'') full_env))
             (Some Stderr) no_output) Stderr
     = unlines [''   python3         : 3.3.0 '',
                ''   cdecimal        : 1.70 (built-in) '',
                ''   dateutil        : NOT INSTALLED '',
                ''   bottle          : 0.12.7 '',
                ''   ply             : 3.4 '',
                ''   lxml            : 2.0 (INSUFFICIENT)'',
                ''   apiclient       : 1.2 '',
                ''   oauth2client    : 1.2 '']"
proof -
  let ?env = "without_module ''dateutil'' (with_module ''lxml.etree'' (a_module ''2.0'') full_env)"
  have e: "check_dependencies ?env
     = Inr [(''python3'', PyStr ''3.3.0'', True), (''cdecimal'', PyStr ''1.70 (built-in)'', True),
            (''dateutil'', PyNone, False), (''bottle'', PyStr ''0.12.7'', True),
            (''ply'', PyStr ''3.4'', True), (''lxml'', PyStr ''2.0'', False),
            (''apiclient'', PyStr ''1.2'', True), (''oauth2client'', PyStr ''1.2'', True)]"
    by code_simp
  have "fst (list_dependencies ?env (Some Stderr) no_output) Stderr
     = unlines [''   python3         : 3.3.0 '',
                ''   cdecimal        : 1.70 (built-in) '',
                ''   dateutil        : NOT INSTALLED '',
                ''   bottle          : 0.12.7 '',
                ''   ply             : 3.4 '',
                ''   lxml            : 2.0 (INSUFFICIENT)'',
                ''   apiclient       : 1.2 '',
                ''   oauth2client    : 1.2 '']"
    using list_dependencies_lines [OF e, where f = Stderr and out = no_output,
                                   THEN conjunct2, THEN conjunct2]
    by (simp add: no_output_def eval_nat_numeral)
  with e show ?thesis by (intro conjI)
qed

text \<open>
  Claim C7 as the specification states it (\<^verbatim>\<open>NOT INSTALLED\<close> when the version is absent,
  \<^verbatim>\<open>(INSUFFICIENT)\<close> exactly when a version was detected and the flag is false) fails where
  \<^verbatim>\<open>ply.yacc\<close> has the empty string as its \<^verbatim>\<open>__version__\<close>: the version is detected and
  insufficient, and the line of \<^verbatim>\<open>ply\<close> reads \<^verbatim>\<open>NOT INSTALLED\<close> with no suffix.
\<close>

theorem empty_version_line_counterexample:
  "check_import (with_module ''ply.yacc'' (a_module []) full_env)
       ''ply'' (Some ''3.4'') (Some ''ply.yacc'') = Inr (''ply'', PyStr [], False)
   \<and> fst (list_dependencies (with_module ''ply.yacc'' (a_module []) full_env) None no_output)
         Stderr
     = unlines [''   python3         : 3.3.0 '',
                ''   cdecimal        : 1.70 (built-in) '',
                ''   dateutil        : 2.2 '',
                ''   bottle          : 0.12.7 '',
                ''   ply             : NOT INSTALLED '',
                ''   lxml            : 3.3.5 '',
                ''   apiclient       : 1.2 '',
                ''   oauth2client    : 1.2 '']"
  by code_simp

subsection \<open>The order of the results (C8)\<close>

text \<open>
  Claim C8. \<^verbatim>\<open>check_dependencies()\<close> returns a list exactly when each of its checks
  returns, and the list is then the eight results in the order of the declaration: the
  result of \<^verbatim>\<open>check_python\<close>, of \<^verbatim>\<open>check_cdecimal\<close>, and of \<^verbatim>\<open>check_import\<close> for
  \<^verbatim>\<open>dateutil\<close>, \<^verbatim>\<open>bottle\<close>, \<^verbatim>\<open>ply\<close>, \<^verbatim>\<open>lxml\<close>, \<^verbatim>\<open>apiclient\<close> and \<^verbatim>\<open>oauth2client\<close>; the names
  it reports are these, in this order.
\<close>

theorem check_dependencies_order:
  "(check_dependencies env = Inr results \<longleftrightarrow>
      (\<exists>r2 r3 r4 r5 r6 r7 r8.
         check_cdecimal env = Inr r2 \<and>
         check_import env ''dateutil'' None None = Inr r3 \<and>
         check_import env ''bottle'' None None = Inr r4 \<and>
         check_import env ''ply'' (Some ''3.4'') (Some ''ply.yacc'') = Inr r5 \<and>
         check_import env ''lxml'' (Some ''3'') (Some ''lxml.etree'') = Inr r6 \<and>
         check_import env ''apiclient'' None None = Inr r7 \<and>
         check_import env ''oauth2client'' None None = Inr r8 \<and>
         results = [check_python env, r2, r3, r4, r5, r6, r7, r8]))
   \<and> (check_dependencies env = Inr results \<longrightarrow>
        length results = 8 \<and>
        map fst results =
          [''python3'', ''cdecimal'', ''dateutil'', ''bottle'', ''ply'', ''lxml'',
           ''apiclient'', ''oauth2client''])"
proof (intro conjI impI)
  show "check_dependencies env = Inr results \<longleftrightarrow>
      (\<exists>r2 r3 r4 r5 r6 r7 r8.
         check_cdecimal env = Inr r2 \<and>
         check_import env ''dateutil'' None None = Inr r3 \<and>
         check_import env ''bottle'' None None = Inr r4 \<and>
         check_import env ''ply'' (Some ''3.4'') (Some ''ply.yacc'') = Inr r5 \<and>
         check_import env ''lxml'' (Some ''3'') (Some ''lxml.etree'') = Inr r6 \<and>
         check_import env ''apiclient'' None None = Inr r7 \<and>
         check_import env ''oauth2client'' None None = Inr r8 \<and>
         results = [check_python env, r2, r3, r4, r5, r6, r7, r8])"
    by (rule check_dependencies_Inr_iff)
next
  assume "check_dependencies env = Inr results"
  then obtain r2 r3 r4 r5 r6 r7 r8 where
    checks: "check_cdecimal env = Inr r2"
      "check_import env ''dateutil'' None None = Inr r3"
      "check_import env ''bottle'' None None = Inr r4"
      "check_import env ''ply'' (Some ''3.4'') (Some ''ply.yacc'') = Inr r5"
      "check_import env ''lxml'' (Some ''3'') (Some ''lxml.etree'') = Inr r6"
      "check_import env ''apiclient'' None None = Inr r7"
      "check_import env ''oauth2client'' None None = Inr r8"
    and rs: "results = [check_python env, r2, r3, r4, r5, r6, r7, r8]"
    unfolding check_dependencies_Inr_iff by blast
  have "fst (check_python env) = ''python3''"
    by (simp add: check_python_def Let_def)
  moreover have "fst r2 = ''cdecimal''"
    using checks(1) check_cdecimal_name_aux [of env "fst r2" "fst (snd r2)" "snd (snd r2)"] by simp
  moreover have "fst r3 = ''dateutil''" "fst r4 = ''bottle''" "fst r5 = ''ply''"
    "fst r6 = ''lxml''" "fst r7 = ''apiclient''" "fst r8 = ''oauth2client''"
    using checks(2-7) check_import_name_aux [of env _ _ _ "fst r" "fst (snd r)" "snd (snd r)" for r]
    by simp_all
  ultimately show "map fst results =
          [''python3'', ''cdecimal'', ''dateutil'', ''bottle'', ''ply'', ''lxml'',
           ''apiclient'', ''oauth2client'']"
    using rs by simp
  show "length results = 8" using rs by simp
qed

text \<open>
  The list of the full installation.
\<close>

theorem check_dependencies_order_witness:
  "check_dependencies full_env =
     Inr [(''python3'', PyStr ''3.3.0'', True), (''cdecimal'', PyStr ''1.70 (built-in)'', True),
          (''dateutil'', PyStr ''2.2'', True), (''bottle'', PyStr ''0.12.7'', True),
          (''ply'', PyStr ''3.4'', True), (''lxml'', PyStr ''3.3.5'', True),
          (''apiclient'', PyStr ''1.2'', True), (''oauth2client'', PyStr ''1.2'', True)]
   \<and> map fst
        [(''python3'', PyStr ''3.3.0'', True), (''cdecimal'', PyStr ''1.70 (built-in)'', True),
         (''dateutil'', PyStr ''2.2'', True), (''bottle'', PyStr ''0.12.7'', True),
         (''ply'', PyStr ''3.4'', True), (''lxml'', PyStr ''3.3.5'', True),
         (''apiclient'', PyStr ''1.2'', True), (''oauth2client'', PyStr ''1.2'', True)]
      = [''python3'', ''cdecimal'', ''dateutil'', ''bottle'', ''ply'', ''lxml'',
         ''apiclient'', ''oauth2client'']"
proof -
  have e: "check_dependencies full_env =
     Inr [(''python3'', PyStr ''3.3.0'', True), (''cdecimal'', PyStr ''1.70 (built-in)'', True),
          (''dateutil'', PyStr ''2.2'', True), (''bottle'', PyStr ''0.12.7'', True),
          (''ply'', PyStr ''3.4'', True), (''lxml'', PyStr ''3.3.5'', True),
          (''apiclient'', PyStr ''1.2'', True), (''oauth2client'', PyStr ''1.2'', True)]"
    by code_simp
  from check_dependencies_order [THEN conjunct2, rule_format, OF e, THEN conjunct2] e
  show ?thesis by (intro conjI)
qed

subsection \<open>The two markers of a line (C9)\<close>

text \<open>
  Claim C9. The text \<^verbatim>\<open>list_dependencies\<close> writes to its file is one \<open>format_line\<close> for
  each result. A version that is false, \<^verbatim>\<open>None\<close> or the empty string, is rendered as
  \<^verbatim>\<open>NOT INSTALLED\<close> and its line has no suffix; the suffix \<^verbatim>\<open>(INSUFFICIENT)\<close> is written
  only after a version that is true, which the line shows as it is, and then exactly when
  the flag is false. So the marker, written for a false version only, and the suffix,
  written for a true version only, are never written on the same line. The last two
  conjuncts say the same of every value of the version, by its truth value.
\<close>

theorem report_markers:
  "(check_dependencies env = Inr results \<longrightarrow>
      fst (list_dependencies env (Some f) out) f =
        out f @ (if f = Stdout then unlines [''Dependencies:''] else []) @
        unlines (map format_line results))
   \<and> (version = PyNone \<or> version = PyStr [] \<longrightarrow>
        format_line (package, version, sufficient) =
          ''   '' @ format_width 16 package @ '': NOT INSTALLED '')
   \<and> (version = PyStr v \<and> v \<noteq> [] \<longrightarrow>
        format_line (package, version, sufficient) =
          ''   '' @ format_width 16 package @ '': '' @ v @ '' '' @
          (if sufficient then [] else ''(INSUFFICIENT)''))
   \<and> (\<not> truthy version \<longrightarrow>
        format_line (package, version, sufficient) =
          ''   '' @ format_width 16 package @ '': NOT INSTALLED '')
   \<and> (truthy version \<longrightarrow>
        format_line (package, version, sufficient) =
          ''   '' @ format_width 16 package @ '': '' @ py_str version @ '' '' @
          (if sufficient then [] else ''(INSUFFICIENT)''))"
proof (intro conjI impI)
  assume "check_dependencies env = Inr results"
  then show "fst (list_dependencies env (Some f) out) f =
        out f @ (if f = Stdout then unlines [''Dependencies:''] else []) @
        unlines (map format_line results)"
    by (rule list_dependencies_file)
next
  assume "version = PyNone \<or> version = PyStr []"
  then show "format_line (package, version, sufficient) =
          ''   '' @ format_width 16 package @ '': NOT INSTALLED ''"
    by (auto simp: format_line_def py_or_def)
next
  assume "version = PyStr v \<and> v \<noteq> []"
  then show "format_line (package, version, sufficient) =
          ''   '' @ format_width 16 package @ '': '' @ v @ '' '' @
          (if sufficient then [] else ''(INSUFFICIENT)'')"
    by (simp add: format_line_def py_or_def)
next
  assume "\<not> truthy version"
  then show "format_line (package, version, sufficient) =
          ''   '' @ format_width 16 package @ '': NOT INSTALLED ''"
    by (simp add: format_line_def py_or_def)
next
  assume "truthy version"
  then show "format_line (package, version, sufficient) =
          ''   '' @ format_width 16 package @ '': '' @ py_str version @ '' '' @
          (if sufficient then [] else ''(INSUFFICIENT)'')"
    by (simp add: format_line_def py_or_def)
qed

text \<open>
  Four lines: a version that is \<^verbatim>\<open>None\<close>, one that is empty, one that is insufficient, one
  that is sufficient.
\<close>

theorem report_markers_witness:
  "format_line (''dateutil'', PyNone, False) = ''   dateutil        : NOT INSTALLED ''
   \<and> format_line (''ply'', PyStr [], False) = ''   ply             : NOT INSTALLED ''
   \<and> format_line (''lxml'', PyStr ''2.0'', False) = ''   lxml            : 2.0 (INSUFFICIENT)''
   \<and> format_line (''bottle'', PyStr ''0.12.7'', True) = ''   bottle          : 0.12.7 ''"
proof -
  have w: "format_width 16 ''dateutil'' = ''dateutil        ''"
    "format_width 16 ''ply'' = ''ply             ''"
    "format_width 16 ''lxml'' = ''lxml            ''"
    "format_width 16 ''bottle'' = ''bottle          ''"
    by code_simp+
  have a: "format_line (''dateutil'', PyNone, False) = ''   dateutil        : NOT INSTALLED ''"
    using report_markers [THEN conjunct2, THEN conjunct1, of PyNone "''dateutil''" False]
    by (simp add: w)
  have b: "format_line (''ply'', PyStr [], False) = ''   ply             : NOT INSTALLED ''"
    using report_markers [THEN conjunct2, THEN conjunct1, of "PyStr []" "''ply''" False]
    by (simp add: w)
  have c: "format_line (''lxml'', PyStr ''2.0'', False) = ''   lxml            : 2.0 (INSUFFICIENT)''"
    using report_markers [THEN conjunct2, THEN conjunct2, THEN conjunct1,
                          of "PyStr ''2.0''" "''2.0''" "''lxml''" False]
    by (simp add: w)
  have d: "format_line (''bottle'', PyStr ''0.12.7'', True) = ''   bottle          : 0.12.7 ''"
    using report_markers [THEN conjunct2, THEN conjunct2, THEN conjunct1,
                          of "PyStr ''0.12.7''" "''0.12.7''" "''bottle''" True]
    by (simp add: w)
  from a b c d show ?thesis by (intro conjI)
qed

subsection \<open>The name check_import reports (C10)\<close>

text \<open>
  Claim C10. The first component of every triple \<^verbatim>\<open>check_import\<close> returns is
  \<^verbatim>\<open>package_name\<close>, whatever module was imported and whether the import succeeded or failed.
\<close>

theorem check_import_reports_package_name:
  "check_import env package_name min_version module_name = Inr (name, version, sufficient)
     \<Longrightarrow> name = package_name"
  by (auto simp: check_import_cases split: sum.splits if_splits prod.splits)

text \<open>
  A success where the module imported, \<^verbatim>\<open>ply.yacc\<close>, is not the package name, and a
  failure.
\<close>

theorem check_import_reports_package_name_witness:
  "check_import full_env ''ply'' (Some ''3.4'') (Some ''ply.yacc'') = Inr (''ply'', PyStr ''3.4'', True)
   \<and> check_import (without_module ''bottle'' full_env) ''bottle'' None None
       = Inr (''bottle'', PyNone, False)"
proof -
  have ok: "check_import full_env ''ply'' (Some ''3.4'') (Some ''ply.yacc'')
              = Inr (''ply'', PyStr ''3.4'', True)"
    by code_simp
  have absent: "check_import (without_module ''bottle'' full_env) ''bottle'' None None
                  = Inr (''bottle'', PyNone, False)"
    by code_simp
  from check_import_reports_package_name [OF ok]
       check_import_reports_package_name [OF absent] ok absent
  show ?thesis by (intro conjI)
qed

end
